theory Spec2Isabelle
  imports Complex_Main "HOL-Library.Word" "HOL-Library.AList"
begin

section \<open>The enriched output handler (algorithms/outputs/traceroute\_enriched\_data.c)\<close>

subsection \<open>Data\<close>

text \<open>
  Pointers are addresses; address 0 is the null pointer. A \<open>probe_t\<close> is read, never
  written or released, by the functions of this file, so a pointer to a probe is
  identified with the probe it points to. Of a probe only the two timestamps matter here.
\<close>

type_synonym addr = nat

definition NULL :: addr where
  "NULL = 0"

record probe_t =
  sending_time :: real
  recv_time :: real

record probe_reply_t =
  probe :: probe_t
  reply :: probe_t

record enriched_reply_t =
  reply :: probe_t
  delay :: real

datatype mda_event_type_t = MDA_NEW_LINK | MDA_PROBE_REPLY | MDA_PROBE_TIMEOUT | MDA_ENDS

text \<open>
  The field \<open>data\<close> of an event is a \<open>void *\<close> that the handler casts according to the
  event type: to a \<open>probe_reply_t *\<close> for a reply, to a \<open>probe_t *\<close> for a timeout.
\<close>

datatype mda_data = Probe_reply_data probe_reply_t | Probe_data probe_t | Other_data

record mda_event_t =
  type :: mda_event_type_t
  data :: mda_data

datatype traceroute_output_format_t =
    TRACEROUTE_OUTPUT_FORMAT_DEFAULT
  | TRACEROUTE_OUTPUT_FORMAT_JSON
  | TRACEROUTE_OUTPUT_FORMAT_XML

record traceroute_enriched_user_data_t =
  format :: traceroute_output_format_t
  is_first_result :: bool

text \<open>
  The two formats other than the default one are compiled in only when their macro is
  defined (\<open>#ifdef USE_FORMAT_JSON\<close>, \<open>#ifdef USE_FORMAT_XML\<close>); \<open>use.h\<close> decides.
\<close>

record use_h =
  USE_FORMAT_JSON :: bool
  USE_FORMAT_XML :: bool

subsection \<open>Output\<close>

text \<open>
  What the handler writes is kept as the list of its output calls, in program order.
  \<open>reply_to_json\<close>, \<open>star_to_json\<close> and \<open>json_print_footer\<close> are library calls; each is
  recorded with the value it is given to print and the stream it prints to.
  \<open>Printf_d\<close> is a \<open>printf\<close> on standard output of a text with one \<open>%d\<close>, here always
  the event type.
\<close>

datatype FILE = stdout | stderr

datatype out_call =
    Fprintf FILE string
  | Printf_d string mda_event_type_t
  | Reply_to_json enriched_reply_t FILE
  | Star_to_json probe_t FILE
  | Json_print_footer FILE

subsection \<open>The heap of enriched replies\<close>

text \<open>
  \<open>cells\<close> holds the live blocks with their content, \<open>room\<close> is the number of blocks
  the allocator can still hand out (\<open>malloc\<close> returns \<open>NULL\<close> at 0), and \<open>junk\<close> is the
  indeterminate content of a block that \<open>malloc\<close> has just returned. A successful
  \<open>malloc\<close> returns an address that is neither null nor live: \<open>fresh\<close> takes the first
  one above every live block. Reading or writing through a null pointer or through a
  pointer to no live block, and freeing such a pointer, are errors.
\<close>

record heap =
  cells :: "(addr \<times> enriched_reply_t) list"
  room :: nat
  junk :: enriched_reply_t

datatype error = Null_dereference | Invalid_pointer | Bad_cast

text \<open>Sequencing of steps that may crash: the first error ends the run.\<close>

definition and_then :: "error + 'a \<Rightarrow> ('a \<Rightarrow> error + 'b) \<Rightarrow> error + 'b" where
  "and_then m f = (case m of Inl e \<Rightarrow> Inl e | Inr x \<Rightarrow> f x)"

fun fresh :: "(addr \<times> 'a) list \<Rightarrow> addr" where
  "fresh [] = 1"
| "fresh ((a, _) # al) = max (Suc a) (fresh al)"

definition malloc :: "heap \<Rightarrow> addr \<times> heap" where
  "malloc h =
     (if room h = 0 then (NULL, h)
      else let p = fresh (cells h)
           in (p, h\<lparr>cells := (p, junk h) # cells h, room := room h - 1\<rparr>))"

definition free :: "addr \<Rightarrow> heap \<Rightarrow> error + heap" where
  "free p h =
     (if p = NULL then Inr h
      else if map_of (cells h) p = None then Inl Invalid_pointer
      else Inr (h\<lparr>cells := AList.delete p (cells h), room := Suc (room h)\<rparr>))"

definition load :: "heap \<Rightarrow> addr \<Rightarrow> error + enriched_reply_t" where
  "load h p =
     (if p = NULL then Inl Null_dereference
      else case map_of (cells h) p of None \<Rightarrow> Inl Invalid_pointer | Some v \<Rightarrow> Inr v)"

definition store :: "addr \<Rightarrow> (enriched_reply_t \<Rightarrow> enriched_reply_t) \<Rightarrow> heap \<Rightarrow> error + heap" where
  "store p f h =
     and_then (load h p) (\<lambda>v. Inr (h\<lparr>cells := AList.update p (f v) (cells h)\<rparr>))"

subsection \<open>enriched\_reply\_shallow\_copy\<close>

text \<open>
  \<^verbatim>\<open>
  enriched_reply_t * reply_dup = malloc(sizeof(enriched_reply_t));
  reply_dup->reply = reply->reply;
  reply_dup->delay = reply->delay;
  return reply_dup;
  \<close>
  The result of \<open>malloc\<close> is not tested: when it is null, the first assignment writes
  through a null pointer, which is the error \<open>Null_dereference\<close>.
\<close>

definition enriched_reply_shallow_copy :: "heap \<Rightarrow> addr \<Rightarrow> error + (addr \<times> heap)" where
  "enriched_reply_shallow_copy h rp =
     (let (reply_dup, h1) = malloc h
      in and_then (load h1 rp) (\<lambda>r.
         and_then (store reply_dup (\<lambda>c. c\<lparr>reply := reply r\<rparr>) h1) (\<lambda>h2.
         and_then (load h2 rp) (\<lambda>r'.
         and_then (store reply_dup (\<lambda>c. c\<lparr>delay := delay r'\<rparr>) h2) (\<lambda>h3.
         Inr (reply_dup, h3))))))"

subsection \<open>traceroute\_enriched\_handler\<close>

text \<open>Modelled from the spec: \<open>delay_probe_reply\<close> is called by the handler and defined
  outside the two source files. The spec gives the delay of an enriched reply as
  \<open>recv - send\<close>: the receive time of the reply minus the send time of the probe.
  The C type of times and delays is \<open>double\<close>; they are real numbers here.
\<close>

definition delay_probe_reply :: "probe_t \<Rightarrow> probe_t \<Rightarrow> real" where
  "delay_probe_reply pr rp = recv_time rp - sending_time pr"

text \<open>
  The handler reads and writes \<open>*user_data\<close>, allocates and frees on the heap, and
  prints. Its parameters \<open>loop\<close>, \<open>traceroute_options\<close> and \<open>sorted_print\<close> are not
  used by its body and are left out.
\<close>

record state =
  heap :: heap
  user_data :: traceroute_enriched_user_data_t
  out :: "out_call list"

definition print :: "out_call \<Rightarrow> state \<Rightarrow> state" where
  "print c s = s\<lparr>out := out s @ [c]\<rparr>"

text \<open>
  \<^verbatim>\<open>
  if (user_data->is_first_result) {
      user_data->is_first_result = false;
  } else {
      fprintf(f_json, ", ");
  }
  \<close>
\<close>

definition json_separator :: "state \<Rightarrow> state" where
  "json_separator s =
     (if is_first_result (user_data s)
      then s\<lparr>user_data := (user_data s)\<lparr>is_first_result := False\<rparr>\<rparr>
      else print (Fprintf stdout '', '') s)"

text \<open>
  \<open>reply_to_json(enriched_reply, f_json)\<close> is a call into the Json writer: it is taken
  to read the block it is given, print it and keep no pointer to it.
\<close>

definition reply_to_json :: "addr \<Rightarrow> FILE \<Rightarrow> state \<Rightarrow> error + state" where
  "reply_to_json p f s = and_then (load (heap s) p) (\<lambda>v. Inr (print (Reply_to_json v f) s))"

text \<open>The inner switch of the case \<open>MDA_PROBE_REPLY\<close>.\<close>

definition reply_switch :: "use_h \<Rightarrow> addr \<Rightarrow> state \<Rightarrow> error + state" where
  "reply_switch use enriched_reply s =
     (case format (user_data s) of
        TRACEROUTE_OUTPUT_FORMAT_DEFAULT \<Rightarrow> Inr s
      | TRACEROUTE_OUTPUT_FORMAT_JSON \<Rightarrow>
          if USE_FORMAT_JSON use
          then reply_to_json enriched_reply stdout (json_separator s)
          else Inr s
      | TRACEROUTE_OUTPUT_FORMAT_XML \<Rightarrow>
          if USE_FORMAT_XML use
          then Inr (print (Fprintf stderr ''Not yet implemented\<newline>'') s)
          else Inr s)"

text \<open>
  The inner switch of the case \<open>MDA_PROBE_TIMEOUT\<close>. The event's \<open>data\<close> has been
  cast to a \<open>probe_t *\<close>; only \<open>star_to_json\<close> reads through it.
\<close>

definition star_to_json :: "mda_data \<Rightarrow> FILE \<Rightarrow> state \<Rightarrow> error + state" where
  "star_to_json d f s =
     (case d of Probe_data pr \<Rightarrow> Inr (print (Star_to_json pr f) s) | _ \<Rightarrow> Inl Bad_cast)"

definition timeout_switch :: "use_h \<Rightarrow> mda_data \<Rightarrow> state \<Rightarrow> error + state" where
  "timeout_switch use d s =
     (case format (user_data s) of
        TRACEROUTE_OUTPUT_FORMAT_DEFAULT \<Rightarrow> Inr s
      | TRACEROUTE_OUTPUT_FORMAT_JSON \<Rightarrow>
          if USE_FORMAT_JSON use
          then star_to_json d stdout (json_separator s)
          else Inr s
      | TRACEROUTE_OUTPUT_FORMAT_XML \<Rightarrow>
          if USE_FORMAT_XML use
          then Inr (print (Fprintf stderr ''Not yet implemented\<newline>'') s)
          else Inr s)"

text \<open>The inner switch of the case \<open>MDA_ENDS\<close>; its \<open>default\<close> does nothing.\<close>

definition ends_switch :: "use_h \<Rightarrow> state \<Rightarrow> state" where
  "ends_switch use s =
     (case format (user_data s) of
        TRACEROUTE_OUTPUT_FORMAT_XML \<Rightarrow>
          if USE_FORMAT_XML use
          then print (Fprintf stderr ''Not yet implemented\<newline>'') s
          else s
      | TRACEROUTE_OUTPUT_FORMAT_JSON \<Rightarrow>
          if USE_FORMAT_JSON use
          then print (Json_print_footer stdout) s
          else s
      | TRACEROUTE_OUTPUT_FORMAT_DEFAULT \<Rightarrow> s)"

text \<open>The \<open>default\<close> of the outer switch.\<close>

definition unhandled_event :: "mda_event_t \<Rightarrow> state \<Rightarrow> state" where
  "unhandled_event ev s =
     print (Printf_d ''traceroute_enriched_handler: Unhandled event %d\<newline>'' (type ev)) s"

text \<open>
  The construction of the enriched reply in the case \<open>MDA_PROBE_REPLY\<close>:
  \<^verbatim>\<open>
  enriched_reply_t * enriched_reply = malloc(sizeof(enriched_reply_t));
  enriched_reply->reply = reply;
  enriched_reply->delay = delay_probe_reply(probe, reply);
  \<close>
\<close>

definition new_enriched_reply :: "probe_reply_t \<Rightarrow> heap \<Rightarrow> error + (addr \<times> heap)" where
  "new_enriched_reply d h =
     (let (enriched_reply, h1) = malloc h
      in and_then (store enriched_reply (\<lambda>c. c\<lparr>reply := probe_reply_t.reply d\<rparr>) h1) (\<lambda>h2.
         and_then (store enriched_reply
            (\<lambda>c. c\<lparr>delay := delay_probe_reply (probe d) (probe_reply_t.reply d)\<rparr>) h2) (\<lambda>h3.
         Inr (enriched_reply, h3))))"

text \<open>
  The outer switch on the event type. The cases \<open>MDA_PROBE_REPLY\<close> and
  \<open>MDA_PROBE_TIMEOUT\<close> end with \<open>break\<close>. The case \<open>MDA_ENDS\<close> has no \<open>break\<close> after its
  inner switch: control goes on into \<open>default\<close>.
\<close>

definition traceroute_enriched_handler :: "use_h \<Rightarrow> mda_event_t \<Rightarrow> state \<Rightarrow> error + state" where
  "traceroute_enriched_handler use mda_event s =
     (case type mda_event of
        MDA_PROBE_REPLY \<Rightarrow>
          (case data mda_event of
             Probe_reply_data d \<Rightarrow>
               and_then (new_enriched_reply d (heap s)) (\<lambda>(enriched_reply, h1).
               and_then (reply_switch use enriched_reply (s\<lparr>heap := h1\<rparr>)) (\<lambda>s1.
               and_then (free enriched_reply (heap s1)) (\<lambda>h2.
               Inr (s1\<lparr>heap := h2\<rparr>))))
           | _ \<Rightarrow> Inl Bad_cast)
      | MDA_PROBE_TIMEOUT \<Rightarrow> timeout_switch use (data mda_event) s
      | MDA_ENDS \<Rightarrow> Inr (unhandled_event mda_event (ends_switch use s))
      | _ \<Rightarrow> Inr (unhandled_event mda_event s))"

text \<open>The handler is called once for each event the algorithm raises, in order.\<close>

fun handle_all :: "use_h \<Rightarrow> mda_event_t list \<Rightarrow> state \<Rightarrow> error + state" where
  "handle_all use [] s = Inr s"
| "handle_all use (ev # evs) s =
     and_then (traceroute_enriched_handler use ev s) (handle_all use evs)"

text \<open>
  What a run of the handler over reply and timeout events is to print in the Json
  format: one item for each event, and \<open>", "\<close> before every item but the first one
  printed (\<open>first\<close> tells whether nothing has been printed yet).
\<close>

definition json_item :: "mda_event_t \<Rightarrow> out_call" where
  "json_item ev =
     (case data ev of
        Probe_reply_data d \<Rightarrow>
          Reply_to_json \<lparr>reply = probe_reply_t.reply d,
            delay = delay_probe_reply (probe d) (probe_reply_t.reply d)\<rparr> stdout
      | Probe_data pr \<Rightarrow> Star_to_json pr stdout
      | Other_data \<Rightarrow> Fprintf stdout [])"

fun with_separators :: "bool \<Rightarrow> out_call list \<Rightarrow> out_call list" where
  "with_separators first [] = []"
| "with_separators first (x # xs) =
     (if first then [x] else [Fprintf stdout '', '', x]) @ with_separators False xs"

definition is_probe_event :: "mda_event_t \<Rightarrow> bool" where
  "is_probe_event ev =
     (case (type ev, data ev) of
        (MDA_PROBE_REPLY, Probe_reply_data d) \<Rightarrow> True
      | (MDA_PROBE_TIMEOUT, Probe_data pr) \<Rightarrow> True
      | _ \<Rightarrow> False)"

section \<open>Releasing the per-hop map (map\_probe\_free)\<close>

text \<open>
  \<^verbatim>\<open>
  for (size_t i = 1; i < options_traceroute_get_max_ttl(); ++i) {
      vector_t * replies_by_ttl_i = NULL;
      if (map_find(map, &i, &replies_by_ttl_i)) {
          free(replies_by_ttl_i);
      }
  }
  \<close>
  The map sends a hop to the address of its vector of replies. The value of the option
  \<open>max_ttl\<close> is a parameter. The function returns the addresses it has passed to
  \<open>free\<close>, in the order of the calls.
\<close>

function map_probe_free_loop :: "nat \<Rightarrow> nat \<Rightarrow> (nat \<rightharpoonup> addr) \<Rightarrow> addr list \<Rightarrow> addr list" where
  "map_probe_free_loop i max_ttl m freed =
     (if i < max_ttl
      then map_probe_free_loop (Suc i) max_ttl m
             (case m i of Some replies_by_ttl_i \<Rightarrow> freed @ [replies_by_ttl_i] | None \<Rightarrow> freed)
      else freed)"
  by pat_completeness auto
termination
  by (relation "measure (\<lambda>(i, max_ttl, m, freed). max_ttl - i)") auto

definition map_probe_free :: "nat \<Rightarrow> (nat \<rightharpoonup> addr) \<Rightarrow> addr list" where
  "map_probe_free max_ttl m = map_probe_free_loop 1 max_ttl m []"

declare map_probe_free_loop.simps [simp del]

section \<open>The command-line program (paris-traceroute/paris-traceroute.c)\<close>

subsection \<open>Static variables\<close>

text \<open>
  The option table \<open>runnable_options\<close> binds each flag to one of the static variables:
  \<open>-4\<close>, \<open>-6\<close>, \<open>-v\<close>, \<open>-U\<close> and \<open>-I\<close> store 1 in \<open>is_ipv4\<close>, \<open>is_ipv6\<close>, \<open>is_verbose\<close>,
  \<open>is_udp\<close> and \<open>is_icmp\<close>; \<open>-a\<close> and \<open>-P\<close> choose in \<open>algorithm_names\<close> and
  \<open>protocol_names\<close>, whose entry 0 is the choice; \<open>-s\<close> and \<open>-d\<close> write the bounded
  integers \<open>src_port\<close> and \<open>dst_port\<close>, arrays of the form
  \<open>{value, min, max, option_enabled}\<close>. \<open>main\<close> reads these variables after
  \<open>options_parse\<close> has run; \<open>initial_statics\<close> holds their initialisers.
\<close>

record statics =
  is_ipv4 :: bool
  is_ipv6 :: bool
  is_udp :: bool
  is_icmp :: bool
  is_verbose :: bool
  algorithm_names :: "string list"
  protocol_names :: "string list"
  dst_port :: "int list"
  src_port :: "int list"

definition UINT16_MAX :: int where
  "UINT16_MAX = 65535"

definition initial_statics :: statics where
  "initial_statics =
     \<lparr>is_ipv4 = False, is_ipv6 = False, is_udp = False, is_icmp = False, is_verbose = False,
      algorithm_names = [''paris-traceroute'', ''mda''],
      protocol_names = [''udp'', ''icmp''],
      dst_port = [33457, 0, UINT16_MAX, 0],
      src_port = [33456, 0, UINT16_MAX, 1]\<rparr>"

subsection \<open>The environment\<close>

text \<open>
  What the library and the system return to \<open>main\<close> is a parameter: whether
  \<open>options_create\<close>, \<open>probe_create\<close>, \<open>pt_loop_create\<close> and \<open>pt_algorithm_add\<close>
  succeed, the results of \<open>options_parse\<close>, \<open>address_from_string\<close>,
  \<open>address_to_string\<close> and \<open>pt_loop\<close>, the family \<open>address_guess_family\<close> finds
  (\<open>None\<close> when it fails), whether an option of the mda family was passed
  (\<open>options_mda_get_is_set\<close>), the last command-line argument, and \<open>errno\<close> when
  \<open>main\<close> leaves.
\<close>

record env =
  options_create_ok :: bool
  options_parse_result :: int
  options_mda_get_is_set :: bool
  dst_ip :: string
  address_guess_family :: "int option"
  address_from_string :: int
  address_to_string :: int
  probe_create_ok :: bool
  pt_loop_create_ok :: bool
  pt_algorithm_add_ok :: bool
  pt_loop :: int
  errno :: int

definition AF_INET :: int where
  "AF_INET = 2"

definition AF_INET6 :: int where
  "AF_INET6 = 10"

definition EXIT_SUCCESS :: int where
  "EXIT_SUCCESS = 0"

definition EXIT_FAILURE :: int where
  "EXIT_FAILURE = 1"

subsection \<open>The probe skeleton\<close>

text \<open>
  \<open>main\<close> sets the protocols of the probe and some of its fields. \<open>I16(name, value)\<close>
  makes a 16-bit field: the \<open>int\<close> is converted to \<open>uint16_t\<close>. A protocol name is
  \<open>None\<close> where \<open>main\<close> passes a variable it has not assigned.
\<close>

datatype field_value = I16 "16 word" | ADDRESS string

record skeleton =
  protocols :: "string option list"
  field_values :: "string \<rightharpoonup> field_value"
  payload_size :: nat

definition probe_create :: skeleton where
  "probe_create = \<lparr>protocols = [], field_values = Map.empty, payload_size = 0\<rparr>"

definition probe_set_field :: "string \<Rightarrow> field_value \<Rightarrow> skeleton \<Rightarrow> skeleton" where
  "probe_set_field name v p = p\<lparr>field_values := (field_values p)(name \<mapsto> v)\<rparr>"

subsection \<open>What main does\<close>

datatype effect =
    Fprintf_stderr string
  | Perror string
  | Perror_gai_strerror int
  | Printf string
  | Probe_free
  | Pt_loop_free
  | Free_dst_ip_num

record outcome =
  exit_code :: int
  effects :: "effect list"
  probe_used :: "skeleton option"
  loop_created :: bool
  algorithm_added :: "string option"
  loop_run :: bool

text \<open>
  The labels at the end of \<open>main\<close>, from the last one up. Control falls from each label
  to the next ones and ends in \<open>exit(exit_code)\<close>.
  \<^verbatim>\<open>
  ERR_PT_LOOP: ERR_INSTANCE: ERR_UNKNOWN_ALGORITHM:
      probe_free(probe);
  ERR_FAMILY2: ERR_PROBE_SKEL:
      pt_loop_free(loop);
  ERR_LOOP_CREATE:
      if (dst_ip_num) free(dst_ip_num);
  ERR_ADDRESS_TO_STRING: ... ERR_INVALID_ALGORITHM:
      if (errno) perror(gai_strerror(errno));
  ERR_OPT_PARSE: ERR_INIT_OPTIONS:
      exit(exit_code);
  \<close>
\<close>

definition ERR_INIT_OPTIONS :: "env \<Rightarrow> effect list" where
  "ERR_INIT_OPTIONS e = []"

definition ERR_INVALID_ALGORITHM :: "env \<Rightarrow> effect list" where
  "ERR_INVALID_ALGORITHM e =
     (if errno e \<noteq> 0 then [Perror_gai_strerror (errno e)] else []) @ ERR_INIT_OPTIONS e"

definition ERR_LOOP_CREATE :: "env \<Rightarrow> effect list" where
  "ERR_LOOP_CREATE e = Free_dst_ip_num # ERR_INVALID_ALGORITHM e"

definition ERR_PROBE_SKEL :: "env \<Rightarrow> effect list" where
  "ERR_PROBE_SKEL e = Pt_loop_free # ERR_LOOP_CREATE e"

definition ERR_UNKNOWN_ALGORITHM :: "env \<Rightarrow> effect list" where
  "ERR_UNKNOWN_ALGORITHM e = Probe_free # ERR_PROBE_SKEL e"

text \<open>Leaving before the loop has run: the exit code is still \<open>EXIT_FAILURE\<close>.\<close>

definition fail :: "effect list \<Rightarrow> outcome" where
  "fail es =
     \<lparr>exit_code = EXIT_FAILURE, effects = es, probe_used = None, loop_created = False,
      algorithm_added = None, loop_run = False\<rparr>"

text \<open>
  The address family (lines 211 to 221): from \<open>-4\<close> and \<open>-6\<close>, or guessed from the
  destination; \<open>Inl\<close> carries what is printed before the jump to the exit labels.
\<close>

definition choose_family :: "env \<Rightarrow> statics \<Rightarrow> effect list + int" where
  "choose_family e g =
     (if is_ipv4 g \<and> \<not> is_ipv6 g then Inr AF_INET
      else if is_ipv6 g \<and> \<not> is_ipv4 g then Inr AF_INET6
      else if is_ipv4 g \<and> is_ipv6 g
        then Inl [Fprintf_stderr ''Can not set both ip versions\<newline>'']
      else case address_guess_family e of None \<Rightarrow> Inl [] | Some family \<Rightarrow> Inr family)"

text \<open>
  The preparation of the probe (lines 253 to 289), given the family and the probe that
  \<open>probe_create\<close> returned. \<open>Inl\<close> is the jump to \<open>ERR_FAMILY2\<close>.
  \<^verbatim>\<open>
  is_icmp |= (strcmp(protocol_names[0], "icmp") == 0);
  is_udp  |= (strcmp(protocol_names[0], "udp")  == 0);
  if (is_icmp) { switch (family) { ... protocol_name = "icmpv4" or "icmpv6" ... } }
  probe_set_protocols(probe, ip_protocol_name, protocol_name, NULL);
  probe_set_field(probe, ADDRESS("dst_ip", &dst_addr));
  if (!is_icmp) {
      probe_set_fields(probe, I16("dst_port", dst_port[0]), I16("src_port", src_port[0]), NULL);
      probe_payload_resize(probe, 2);
  }
  if (is_udp && !dst_port[3]) {
      probe_set_fields(probe, I16("dst_port", 53), NULL);
  }
  \<close>
\<close>

definition prepare_probe :: "env \<Rightarrow> statics \<Rightarrow> int \<Rightarrow> string \<Rightarrow> skeleton \<Rightarrow> effect list + skeleton" where
  "prepare_probe e g family ip_protocol_name probe0 =
     (let icmp = (is_icmp g \<or> protocol_names g ! 0 = ''icmp'');
          udp = (is_udp g \<or> protocol_names g ! 0 = ''udp'');
          protocol_name =
            (if icmp
             then if family = AF_INET then Inr (Some ''icmpv4'')
                  else if family = AF_INET6 then Inr (Some ''icmpv6'')
                  else Inl [Fprintf_stderr ''Internet family not supported (%d)\<newline>'']
             else Inr None)
      in case protocol_name of
           Inl es \<Rightarrow> Inl es
         | Inr name \<Rightarrow>
            (let p1 = probe0\<lparr>protocols := [Some ip_protocol_name, name]\<rparr>;
                 p2 = probe_set_field ''dst_ip'' (ADDRESS (dst_ip e)) p1;
                 p3 = (if \<not> icmp
                       then (probe_set_field ''src_port'' (I16 (word_of_int (src_port g ! 0)))
                              (probe_set_field ''dst_port'' (I16 (word_of_int (dst_port g ! 0))) p2))
                              \<lparr>payload_size := 2\<rparr>
                       else p2);
                 p4 = (if udp \<and> dst_port g ! 3 = 0
                       then probe_set_field ''dst_port'' (I16 53) p3
                       else p3)
             in Inr p4))"

text \<open>
  The choice of the algorithm (lines 292 to 306): the name passed to
  \<open>pt_algorithm_add\<close>, or \<open>None\<close> at the jump to \<open>ERR_UNKNOWN_ALGORITHM\<close>.
\<close>

definition choose_algorithm :: "env \<Rightarrow> string \<Rightarrow> string option" where
  "choose_algorithm e algorithm_name =
     (if algorithm_name = ''paris-traceroute'' then Some ''traceroute''
      else if algorithm_name = ''mda'' \<or> options_mda_get_is_set e then Some algorithm_name
      else None)"

text \<open>
  \<open>main\<close>, from the statics as \<open>options_parse\<close> left them. The outcome keeps the exit
  code, what was printed and released, whether the loop was created and run, and the
  probe and the algorithm name handed to \<open>pt_algorithm_add\<close>. The copy of the options
  into the option structure of the algorithm (lines 293 to 319) and the two calls
  \<open>network_set_timeout\<close> and \<open>network_set_is_verbose\<close> leave no trace in it.
\<close>

definition main :: "env \<Rightarrow> statics \<Rightarrow> outcome" where
  "main e g =
     (if \<not> options_create_ok e
        then fail (Fprintf_stderr ''E: Can't initialize options\<newline>'' # ERR_INIT_OPTIONS e)
      else if options_parse_result e \<noteq> 1
        then fail (Fprintf_stderr ''%s: destination required\<newline>'' # ERR_INIT_OPTIONS e)
      else let algorithm_name = algorithm_names g ! 0 in
      if options_mda_get_is_set e \<and> algorithm_name \<noteq> ''mda''
        then fail (Perror ''E: You cannot pass options related to mda when using another algorithm''
                   # ERR_INVALID_ALGORITHM e)
      else case choose_family e g of
        Inl es \<Rightarrow> fail (es @ ERR_INVALID_ALGORITHM e)
      | Inr family \<Rightarrow>
      if family \<noteq> AF_INET \<and> family \<noteq> AF_INET6
        then fail (Fprintf_stderr ''Internet family not supported (%d)\<newline>''
                   # ERR_INVALID_ALGORITHM e)
      else let ip_protocol_name = (if family = AF_INET then ''ipv4'' else ''ipv6'') in
      if address_from_string e \<noteq> 0
        then fail (Fprintf_stderr ''E: Invalid destination address %s\<newline>''
                   # ERR_INVALID_ALGORITHM e)
      else if address_to_string e \<noteq> 0
        then fail (ERR_INVALID_ALGORITHM e)
      else if \<not> probe_create_ok e
        then fail (Perror ''E: Cannot create probe skeleton'' # ERR_PROBE_SKEL e)
      else case prepare_probe e g family ip_protocol_name probe_create of
        Inl es \<Rightarrow> fail (es @ ERR_PROBE_SKEL e)
      | Inr prepared \<Rightarrow>
      (case choose_algorithm e algorithm_name of
        None \<Rightarrow> fail (Perror ''E: Unknown algorithm'' # ERR_UNKNOWN_ALGORITHM e)
      | Some name \<Rightarrow>
      if \<not> pt_loop_create_ok e
        then fail (Perror ''E: Cannot create libparistraceroute loop'' # ERR_LOOP_CREATE e)
      else let banner = Printf ''Traceroute to %s (%s), %u hops max, %ld bytes packets\<newline>\<newline>'' in
      if \<not> pt_algorithm_add_ok e
        then (fail ([banner, Perror ''E: Cannot add the chosen algorithm''] @ ERR_UNKNOWN_ALGORITHM e))
               \<lparr>loop_created := True\<rparr>
      else if pt_loop e < 0
        then \<lparr>exit_code = EXIT_FAILURE,
              effects = [banner, Perror ''E: Main loop interrupted''] @ ERR_UNKNOWN_ALGORITHM e,
              probe_used = Some prepared, loop_created = True,
              algorithm_added = Some name, loop_run = True\<rparr>
      else \<lparr>exit_code = EXIT_SUCCESS,
            effects = banner # ERR_UNKNOWN_ALGORITHM e,
            probe_used = Some prepared, loop_created = True,
            algorithm_added = Some name, loop_run = True\<rparr>))"

section \<open>Example inputs\<close>

text \<open>Concrete events, states and command lines, at which the theorems below are run.\<close>

definition example_probe :: probe_t where
  "example_probe = \<lparr>sending_time = 10, recv_time = 0\<rparr>"

definition example_reply :: probe_t where
  "example_reply = \<lparr>sending_time = 0, recv_time = 25 / 2\<rparr>"

definition example_reply_event :: mda_event_t where
  "example_reply_event =
     \<lparr>type = MDA_PROBE_REPLY,
      data = Probe_reply_data \<lparr>probe = example_probe, reply = example_reply\<rparr>\<rparr>"

definition example_timeout_event :: mda_event_t where
  "example_timeout_event = \<lparr>type = MDA_PROBE_TIMEOUT, data = Probe_data example_probe\<rparr>"

definition example_heap :: heap where
  "example_heap =
     \<lparr>cells = [(1, \<lparr>reply = example_reply, delay = 5 / 2\<rparr>)], room = 1,
      junk = \<lparr>reply = example_probe, delay = 0\<rparr>\<rparr>"

definition example_state :: "traceroute_output_format_t \<Rightarrow> state" where
  "example_state fmt =
     \<lparr>heap = example_heap, user_data = \<lparr>format = fmt, is_first_result = True\<rparr>, out = []\<rparr>"

definition example_use :: use_h where
  "example_use = \<lparr>USE_FORMAT_JSON = True, USE_FORMAT_XML = True\<rparr>"

text \<open>
  An environment in which every call of the library succeeds and the destination is an
  IPv4 address.
\<close>

definition example_env :: env where
  "example_env =
     \<lparr>options_create_ok = True, options_parse_result = 1, options_mda_get_is_set = False,
      dst_ip = ''192.0.2.1'', address_guess_family = Some AF_INET,
      address_from_string = 0, address_to_string = 0, probe_create_ok = True,
      pt_loop_create_ok = True, pt_algorithm_add_ok = True, pt_loop = 0, errno = 0\<rparr>"

section \<open>The heap\<close>

lemma fresh_gt: "(a, v) \<in> set al \<Longrightarrow> a < fresh al"
  by (induction al) auto

lemma fresh_not_live: "fresh al \<notin> fst ` set al"
  using fresh_gt by fastforce

lemma fresh_not_NULL: "fresh al \<noteq> NULL"
  by (induction al rule: fresh.induct) (simp_all add: NULL_def)

lemma map_of_fresh: "map_of al (fresh al) = None"
  using fresh_not_live by (simp add: map_of_eq_None_iff)

lemma delete_fresh: "AList.delete (fresh al) al = al"
  by (simp add: fresh_not_live)

lemma malloc_ok:
  "room h \<noteq> 0 \<Longrightarrow>
   malloc h = (fresh (cells h), h\<lparr>cells := (fresh (cells h), junk h) # cells h, room := room h - 1\<rparr>)"
  by (simp add: malloc_def Let_def)

lemma malloc_fail: "room h = 0 \<Longrightarrow> malloc h = (NULL, h)"
  by (simp add: malloc_def)

lemma malloc_not_NULL: "fst (malloc h) \<noteq> NULL \<longleftrightarrow> room h \<noteq> 0"
  by (simp add: malloc_def Let_def fresh_not_NULL)

lemma load_live: "load h rp = Inr r \<Longrightarrow> rp \<noteq> NULL \<and> map_of (cells h) rp = Some r"
  by (auto simp: load_def split: if_splits option.splits)

lemma overwrite_junk:
  "(j::enriched_reply_t)\<lparr>reply := a, delay := b\<rparr> = \<lparr>reply = a, delay = b\<rparr>"
  by (cases j) simp

lemma free_fresh:
  "room h \<noteq> 0 \<Longrightarrow>
   free (fresh (cells h)) (h\<lparr>cells := (fresh (cells h), v) # cells h, room := room h - 1\<rparr>) = Inr h"
  by (simp add: free_def fresh_not_NULL delete_fresh)

section \<open>Steps of the handler\<close>

lemma new_enriched_reply_ok:
  "room h \<noteq> 0 \<Longrightarrow>
   new_enriched_reply d h =
     Inr (fresh (cells h),
          h\<lparr>cells := (fresh (cells h),
                \<lparr>reply = probe_reply_t.reply d,
                 delay = delay_probe_reply (probe d) (probe_reply_t.reply d)\<rparr>) # cells h,
            room := room h - 1\<rparr>)"
  by (simp add: new_enriched_reply_def malloc_ok store_def load_def and_then_def
      fresh_not_NULL overwrite_junk)

lemma new_enriched_reply_fail:
  "room h = 0 \<Longrightarrow> new_enriched_reply d h = Inl Null_dereference"
  by (simp add: new_enriched_reply_def malloc_fail store_def load_def and_then_def)

lemma handler_reply:
  assumes "room (heap s) \<noteq> 0"
  shows "traceroute_enriched_handler use \<lparr>type = MDA_PROBE_REPLY, data = Probe_reply_data d\<rparr> s =
    Inr (case format (user_data s) of
        TRACEROUTE_OUTPUT_FORMAT_DEFAULT \<Rightarrow> s
      | TRACEROUTE_OUTPUT_FORMAT_JSON \<Rightarrow>
          if USE_FORMAT_JSON use
          then print (Reply_to_json \<lparr>reply = probe_reply_t.reply d,
                 delay = delay_probe_reply (probe d) (probe_reply_t.reply d)\<rparr> stdout) (json_separator s)
          else s
      | TRACEROUTE_OUTPUT_FORMAT_XML \<Rightarrow>
          if USE_FORMAT_XML use
          then print (Fprintf stderr ''Not yet implemented\<newline>'') s
          else s)"
  using assms
  by (cases "format (user_data s)")
     (simp_all add: traceroute_enriched_handler_def new_enriched_reply_ok and_then_def
      fresh_not_NULL reply_switch_def free_def delete_fresh reply_to_json_def json_separator_def
      print_def load_def)

lemma handler_reply_null:
  assumes "room (heap s) = 0"
  shows "traceroute_enriched_handler use \<lparr>type = MDA_PROBE_REPLY, data = Probe_reply_data d\<rparr> s = Inl Null_dereference"
  using assms
  by (simp add: traceroute_enriched_handler_def new_enriched_reply_fail and_then_def)

lemma handler_ends:
  "traceroute_enriched_handler use \<lparr>type = MDA_ENDS, data = d\<rparr> s =
     Inr (print (Printf_d ''traceroute_enriched_handler: Unhandled event %d\<newline>'' MDA_ENDS)
            (ends_switch use s))"
  by (simp add: traceroute_enriched_handler_def unhandled_event_def)

lemma heap_json_separator [simp]: "heap (json_separator s) = heap s"
  by (simp add: json_separator_def print_def)

lemma heap_print [simp]: "heap (print c s) = heap s"
  by (simp add: print_def)

lemma json_step:
  assumes "USE_FORMAT_JSON use" "format (user_data s) = TRACEROUTE_OUTPUT_FORMAT_JSON"
    "room (heap s) \<noteq> 0" "is_probe_event ev"
  shows "traceroute_enriched_handler use ev s = Inr (print (json_item ev) (json_separator s))"
proof (cases ev)
  case (fields ty da)
  with assms(4) consider
      d where "ty = MDA_PROBE_REPLY" "da = Probe_reply_data d"
    | pr where "ty = MDA_PROBE_TIMEOUT" "da = Probe_data pr"
    by (auto simp: is_probe_event_def split: mda_event_type_t.splits mda_data.splits)
  then show ?thesis
  proof cases
    case 1
    with fields assms(1-3) show ?thesis
      using handler_reply [of s use d] by (simp add: json_item_def)
  next
    case 2
    with fields assms(1-3) show ?thesis
      by (simp add: traceroute_enriched_handler_def timeout_switch_def star_to_json_def json_item_def)
  qed
qed

lemma out_json_step:
  "out (print c (json_separator s)) =
   out s @ (if is_first_result (user_data s) then [c] else [Fprintf stdout '', '', c])"
  by (simp add: print_def json_separator_def)

lemma user_data_json_step:
  "user_data (print c (json_separator s)) = (user_data s)\<lparr>is_first_result := False\<rparr>"
  by (simp add: print_def json_separator_def)

lemma handle_all_json:
  assumes "USE_FORMAT_JSON use" "format (user_data s) = TRACEROUTE_OUTPUT_FORMAT_JSON"
    "room (heap s) \<noteq> 0" "\<forall>ev \<in> set evs. is_probe_event ev"
  shows "\<exists>s'. handle_all use evs s = Inr s'
     \<and> out s' = out s @ with_separators (is_first_result (user_data s)) (map json_item evs)
     \<and> heap s' = heap s
     \<and> format (user_data s') = TRACEROUTE_OUTPUT_FORMAT_JSON"
  using assms
proof (induction evs arbitrary: s)
  case Nil
  then show ?case by simp
next
  case (Cons ev evs)
  let ?s1 = "print (json_item ev) (json_separator s)"
  have step: "traceroute_enriched_handler use ev s = Inr ?s1"
    using Cons.prems by (simp add: json_step)
  have "format (user_data ?s1) = TRACEROUTE_OUTPUT_FORMAT_JSON" "room (heap ?s1) \<noteq> 0"
    using Cons.prems by (simp_all add: user_data_json_step)
  with Cons.IH [of ?s1] Cons.prems obtain s' where
    "handle_all use evs ?s1 = Inr s'"
    "out s' = out ?s1 @ with_separators (is_first_result (user_data ?s1)) (map json_item evs)"
    "heap s' = heap ?s1" "format (user_data s') = TRACEROUTE_OUTPUT_FORMAT_JSON"
    by auto
  with step show ?case
    by (simp add: and_then_def out_json_step user_data_json_step)
qed

lemma handle_all_append:
  "handle_all use (xs @ ys) s = and_then (handle_all use xs s) (handle_all use ys)"
  by (induction xs arbitrary: s) (simp_all add: and_then_def split: sum.splits)

lemmas example_defs =
  example_probe_def example_reply_def example_reply_event_def example_timeout_event_def
  example_heap_def example_state_def example_use_def

section \<open>Properties of the handler\<close>

text \<open>
  C1. The claim: handling \<open>MDA_ENDS\<close> ends the switch after the case \<open>MDA_ENDS\<close> and never
  prints the line "traceroute\_enriched\_handler: Unhandled event". The code does the
  opposite: for every \<open>MDA_ENDS\<close> event, whatever the format, the build and the state,
  the handler returns, and the last thing it has printed is that line, after whatever
  the inner switch printed. The case has no \<open>break\<close>.
\<close>

theorem mda_ends_falls_through:
  "\<exists>s'. traceroute_enriched_handler use \<lparr>type = MDA_ENDS, data = d\<rparr> s = Inr s'
     \<and> out s' = out (ends_switch use s) @
          [Printf_d ''traceroute_enriched_handler: Unhandled event %d\<newline>'' MDA_ENDS]"
  by (simp add: handler_ends print_def)

text \<open>
  C6. In the Json format (compiled in), starting with \<open>is_first_result\<close> set, a run of
  the handler over reply and timeout events followed by \<open>MDA_ENDS\<close> prints one item for
  each event, a reply record for a reply and a star record for a timeout, with
  \<open>", "\<close> before every item but the first, and then the footer of the array. (The last
  line printed is the one of C1.) Each reply needs its allocation to succeed, which it
  does when \<open>malloc\<close> succeeds in the first state: the handler frees what it allocates.
\<close>

theorem handler_json_array:
  assumes "USE_FORMAT_JSON use" and "format (user_data s) = TRACEROUTE_OUTPUT_FORMAT_JSON"
    and "is_first_result (user_data s)" and "fst (malloc (heap s)) \<noteq> NULL"
    and "\<forall>ev \<in> set evs. is_probe_event ev"
  shows "\<exists>s'. handle_all use (evs @ [\<lparr>type = MDA_ENDS, data = de\<rparr>]) s = Inr s'
     \<and> out s' = out s @ with_separators True (map json_item evs) @
          [Json_print_footer stdout,
           Printf_d ''traceroute_enriched_handler: Unhandled event %d\<newline>'' MDA_ENDS]"
proof -
  from assms(4) have "room (heap s) \<noteq> 0"
    by (simp add: malloc_not_NULL)
  from handle_all_json [OF assms(1,2) this assms(5)] assms(3) obtain s1 where s1:
    "handle_all use evs s = Inr s1"
    "out s1 = out s @ with_separators True (map json_item evs)"
    "format (user_data s1) = TRACEROUTE_OUTPUT_FORMAT_JSON"
    by auto
  then show ?thesis
    using assms(1)
    by (simp add: handle_all_append and_then_def handler_ends ends_switch_def print_def)
qed

text \<open>
  At a reply followed by a timeout: the reply record, the separator, the star record,
  the footer.
\<close>

theorem handler_json_array_witness:
  "USE_FORMAT_JSON example_use
   \<and> format (user_data (example_state TRACEROUTE_OUTPUT_FORMAT_JSON)) = TRACEROUTE_OUTPUT_FORMAT_JSON
   \<and> is_first_result (user_data (example_state TRACEROUTE_OUTPUT_FORMAT_JSON))
   \<and> fst (malloc (heap (example_state TRACEROUTE_OUTPUT_FORMAT_JSON))) \<noteq> NULL
   \<and> is_probe_event example_reply_event \<and> is_probe_event example_timeout_event
   \<and> (\<exists>s'. handle_all example_use
          ([example_reply_event, example_timeout_event] @ [\<lparr>type = MDA_ENDS, data = Other_data\<rparr>])
          (example_state TRACEROUTE_OUTPUT_FORMAT_JSON) = Inr s'
        \<and> out s' =
            [Reply_to_json \<lparr>reply = example_reply, delay = 5 / 2\<rparr> stdout,
             Fprintf stdout '', '',
             Star_to_json example_probe stdout,
             Json_print_footer stdout,
             Printf_d ''traceroute_enriched_handler: Unhandled event %d\<newline>'' MDA_ENDS])"
proof -
  let ?s = "example_state TRACEROUTE_OUTPUT_FORMAT_JSON"
  have a: "USE_FORMAT_JSON example_use"
    by (simp add: example_use_def)
  have b: "format (user_data ?s) = TRACEROUTE_OUTPUT_FORMAT_JSON"
    by (simp add: example_state_def)
  have c: "is_first_result (user_data ?s)"
    by (simp add: example_state_def)
  have d: "fst (malloc (heap ?s)) \<noteq> NULL"
    by (simp add: malloc_not_NULL example_state_def example_heap_def)
  have e: "\<forall>ev \<in> set [example_reply_event, example_timeout_event]. is_probe_event ev"
    by (simp add: is_probe_event_def example_reply_event_def example_timeout_event_def)
  have items: "with_separators True (map json_item [example_reply_event, example_timeout_event]) =
      [Reply_to_json \<lparr>reply = example_reply, delay = 5 / 2\<rparr> stdout,
       Fprintf stdout '', '', Star_to_json example_probe stdout]"
    by (simp add: json_item_def delay_probe_reply_def example_reply_event_def
        example_timeout_event_def example_probe_def example_reply_def)
  have o: "out ?s = []"
    by (simp add: example_state_def)
  from handler_json_array [OF a b c d e, of Other_data]
  have "\<exists>s'. handle_all example_use
          ([example_reply_event, example_timeout_event] @ [\<lparr>type = MDA_ENDS, data = Other_data\<rparr>])
          (example_state TRACEROUTE_OUTPUT_FORMAT_JSON) = Inr s'
        \<and> out s' =
            [Reply_to_json \<lparr>reply = example_reply, delay = 5 / 2\<rparr> stdout,
             Fprintf stdout '', '',
             Star_to_json example_probe stdout,
             Json_print_footer stdout,
             Printf_d ''traceroute_enriched_handler: Unhandled event %d\<newline>'' MDA_ENDS]"
    unfolding items o by simp
  with a b c d e show ?thesis
    by simp
qed

text \<open>
  C7. For every \<open>MDA_PROBE_REPLY\<close> event whose allocation succeeds, the handler makes an
  enriched reply in a block \<open>p\<close> that was not live before; the block holds the reply of
  the event and the delay, receive time minus send time; the output stage (the inner
  switch) runs while the block is live and holds that pair, and is the only reader: in
  the Json format it prints exactly this pair, in the other formats it does not read it;
  the handler then frees the block, so that on return the heap is the heap of the call
  and \<open>p\<close> is not live. Nothing of the state but the heap ever refers to the block.
\<close>

theorem enriched_reply_lifetime:
  assumes "fst (malloc (heap s)) \<noteq> NULL"
  shows "\<exists>p h1 s1 s'.
       new_enriched_reply d (heap s) = Inr (p, h1)
     \<and> p \<noteq> NULL \<and> map_of (cells (heap s)) p = None
     \<and> load h1 p = Inr \<lparr>reply = probe_reply_t.reply d,
          delay = recv_time (probe_reply_t.reply d) - sending_time (probe d)\<rparr>
     \<and> reply_switch use p (s\<lparr>heap := h1\<rparr>) = Inr s1
     \<and> out s1 = out s @
          (if format (user_data s) = TRACEROUTE_OUTPUT_FORMAT_JSON \<and> USE_FORMAT_JSON use
           then with_separators (is_first_result (user_data s))
                  [Reply_to_json \<lparr>reply = probe_reply_t.reply d,
                     delay = recv_time (probe_reply_t.reply d) - sending_time (probe d)\<rparr> stdout]
           else if format (user_data s) = TRACEROUTE_OUTPUT_FORMAT_XML \<and> USE_FORMAT_XML use
           then [Fprintf stderr ''Not yet implemented\<newline>'']
           else [])
     \<and> traceroute_enriched_handler use \<lparr>type = MDA_PROBE_REPLY, data = Probe_reply_data d\<rparr> s = Inr s'
     \<and> out s' = out s1 \<and> user_data s' = user_data s1
     \<and> heap s' = heap s \<and> load (heap s') p = Inl Invalid_pointer"
proof -
  let ?p = "fresh (cells (heap s))"
  let ?er = "\<lparr>reply = probe_reply_t.reply d,
          delay = recv_time (probe_reply_t.reply d) - sending_time (probe d)\<rparr>"
  let ?h1 = "(heap s)\<lparr>cells := (?p, ?er) # cells (heap s), room := room (heap s) - 1\<rparr>"
  from assms have room: "room (heap s) \<noteq> 0"
    by (simp add: malloc_not_NULL)
  have new: "new_enriched_reply d (heap s) = Inr (?p, ?h1)"
    using room by (simp add: new_enriched_reply_ok delay_probe_reply_def)
  have ld: "load ?h1 ?p = Inr ?er"
    by (simp add: load_def fresh_not_NULL)
  obtain s1 where sw: "reply_switch use ?p (s\<lparr>heap := ?h1\<rparr>) = Inr s1"
    and s1: "s1 = (case format (user_data s) of
        TRACEROUTE_OUTPUT_FORMAT_DEFAULT \<Rightarrow> s\<lparr>heap := ?h1\<rparr>
      | TRACEROUTE_OUTPUT_FORMAT_JSON \<Rightarrow>
          if USE_FORMAT_JSON use
          then print (Reply_to_json ?er stdout) (json_separator (s\<lparr>heap := ?h1\<rparr>))
          else s\<lparr>heap := ?h1\<rparr>
      | TRACEROUTE_OUTPUT_FORMAT_XML \<Rightarrow>
          if USE_FORMAT_XML use
          then print (Fprintf stderr ''Not yet implemented\<newline>'') (s\<lparr>heap := ?h1\<rparr>)
          else s\<lparr>heap := ?h1\<rparr>)"
    by (cases "format (user_data s)")
       (simp_all add: reply_switch_def reply_to_json_def and_then_def load_def fresh_not_NULL
          json_separator_def print_def)
  have h1: "heap s1 = ?h1"
    unfolding s1 by (cases "format (user_data s)") (simp_all add: json_separator_def print_def)
  have o1: "out s1 = out s @
          (if format (user_data s) = TRACEROUTE_OUTPUT_FORMAT_JSON \<and> USE_FORMAT_JSON use
           then with_separators (is_first_result (user_data s)) [Reply_to_json ?er stdout]
           else if format (user_data s) = TRACEROUTE_OUTPUT_FORMAT_XML \<and> USE_FORMAT_XML use
           then [Fprintf stderr ''Not yet implemented\<newline>'']
           else [])"
    unfolding s1 by (cases "format (user_data s)") (simp_all add: json_separator_def print_def)
  have fr: "free ?p (heap s1) = Inr (heap s)"
    unfolding h1 using room by (rule free_fresh)
  have run: "traceroute_enriched_handler use \<lparr>type = MDA_PROBE_REPLY, data = Probe_reply_data d\<rparr> s
      = Inr (s1\<lparr>heap := heap s\<rparr>)"
    by (simp add: traceroute_enriched_handler_def new and_then_def sw fr del: One_nat_def)
  have dead: "load (heap s) ?p = Inl Invalid_pointer"
    by (simp add: load_def fresh_not_NULL map_of_fresh)
  show ?thesis
    using new ld sw o1 run dead fresh_not_NULL [of "cells (heap s)"] map_of_fresh [of "cells (heap s)"]
    by (intro exI [of _ ?p] exI [of _ ?h1] exI [of _ s1] exI [of _ "s1\<lparr>heap := heap s\<rparr>"]) simp
qed

theorem enriched_reply_lifetime_witness:
  "fst (malloc (heap (example_state TRACEROUTE_OUTPUT_FORMAT_JSON))) \<noteq> NULL
   \<and> (\<exists>h1 s1 s'.
       new_enriched_reply \<lparr>probe = example_probe, reply = example_reply\<rparr>
         (heap (example_state TRACEROUTE_OUTPUT_FORMAT_JSON)) = Inr (2, h1)
     \<and> load h1 2 = Inr \<lparr>reply = example_reply, delay = 5 / 2\<rparr>
     \<and> reply_switch example_use 2 ((example_state TRACEROUTE_OUTPUT_FORMAT_JSON)\<lparr>heap := h1\<rparr>) = Inr s1
     \<and> traceroute_enriched_handler example_use example_reply_event
          (example_state TRACEROUTE_OUTPUT_FORMAT_JSON) = Inr s'
     \<and> out s' = [Reply_to_json \<lparr>reply = example_reply, delay = 5 / 2\<rparr> stdout]
     \<and> heap s' = example_heap \<and> load (heap s') 2 = Inl Invalid_pointer)"
proof -
  let ?s = "example_state TRACEROUTE_OUTPUT_FORMAT_JSON"
  let ?d = "\<lparr>probe = example_probe, reply = example_reply\<rparr>"
  have a: "fst (malloc (heap ?s)) \<noteq> NULL"
    by (simp add: malloc_not_NULL example_state_def example_heap_def)
  have new: "new_enriched_reply ?d example_heap =
      Inr (2, example_heap\<lparr>cells := (2, \<lparr>reply = example_reply, delay = 5 / 2\<rparr>) # cells example_heap,
                room := room example_heap - 1\<rparr>)"
    by (simp add: new_enriched_reply_ok delay_probe_reply_def example_defs)
  have vals: "recv_time example_reply - sending_time example_probe = 5 / 2"
    "format (user_data ?s) = TRACEROUTE_OUTPUT_FORMAT_JSON" "USE_FORMAT_JSON example_use"
    "is_first_result (user_data ?s)" "out ?s = []" "heap ?s = example_heap"
    by (simp_all add: example_defs)
  from enriched_reply_lifetime [OF a, of ?d example_use]
  have "\<exists>h1 s1 s'.
       new_enriched_reply ?d (heap ?s) = Inr (2, h1)
     \<and> load h1 2 = Inr \<lparr>reply = example_reply, delay = 5 / 2\<rparr>
     \<and> reply_switch example_use 2 (?s\<lparr>heap := h1\<rparr>) = Inr s1
     \<and> traceroute_enriched_handler example_use example_reply_event ?s = Inr s'
     \<and> out s' = [Reply_to_json \<lparr>reply = example_reply, delay = 5 / 2\<rparr> stdout]
     \<and> heap s' = example_heap \<and> load (heap s') 2 = Inl Invalid_pointer"
    by (simp add: new vals example_reply_event_def) metis
  with a show ?thesis
    by blast
qed

text \<open>
  C8. In the Xml format (compiled in) the handler writes no reply record, no star record
  and no footer. For \<open>MDA_PROBE_REPLY\<close> (its allocation succeeding) and for
  \<open>MDA_PROBE_TIMEOUT\<close> all it prints is the notice "Not yet implemented" on standard
  error; for \<open>MDA_ENDS\<close> it prints the notice, followed by the line of C1; for any other
  event only the line of the \<open>default\<close> case.
\<close>

theorem handler_xml_notice:
  assumes "USE_FORMAT_XML use" and "format (user_data s) = TRACEROUTE_OUTPUT_FORMAT_XML"
    and "fst (malloc (heap s)) \<noteq> NULL"
  shows "traceroute_enriched_handler use \<lparr>type = MDA_PROBE_REPLY, data = Probe_reply_data d\<rparr> s =
         Inr (s\<lparr>out := out s @ [Fprintf stderr ''Not yet implemented\<newline>'']\<rparr>)
     \<and> traceroute_enriched_handler use \<lparr>type = MDA_PROBE_TIMEOUT, data = dt\<rparr> s =
         Inr (s\<lparr>out := out s @ [Fprintf stderr ''Not yet implemented\<newline>'']\<rparr>)
     \<and> traceroute_enriched_handler use \<lparr>type = MDA_ENDS, data = de\<rparr> s =
         Inr (s\<lparr>out := out s @ [Fprintf stderr ''Not yet implemented\<newline>'',
            Printf_d ''traceroute_enriched_handler: Unhandled event %d\<newline>'' MDA_ENDS]\<rparr>)
     \<and> traceroute_enriched_handler use \<lparr>type = MDA_NEW_LINK, data = dl\<rparr> s =
         Inr (s\<lparr>out := out s @
            [Printf_d ''traceroute_enriched_handler: Unhandled event %d\<newline>'' MDA_NEW_LINK]\<rparr>)"
proof -
  from assms(3) have room: "room (heap s) \<noteq> 0"
    by (simp add: malloc_not_NULL)
  have "traceroute_enriched_handler use \<lparr>type = MDA_PROBE_REPLY, data = Probe_reply_data d\<rparr> s =
         Inr (s\<lparr>out := out s @ [Fprintf stderr ''Not yet implemented\<newline>'']\<rparr>)"
    using assms(1,2) handler_reply [OF room, of use d] by (simp add: print_def)
  moreover have "traceroute_enriched_handler use \<lparr>type = MDA_PROBE_TIMEOUT, data = dt\<rparr> s =
         Inr (s\<lparr>out := out s @ [Fprintf stderr ''Not yet implemented\<newline>'']\<rparr>)"
    using assms(1,2) by (simp add: traceroute_enriched_handler_def timeout_switch_def print_def)
  moreover have "traceroute_enriched_handler use \<lparr>type = MDA_ENDS, data = de\<rparr> s =
         Inr (s\<lparr>out := out s @ [Fprintf stderr ''Not yet implemented\<newline>'',
            Printf_d ''traceroute_enriched_handler: Unhandled event %d\<newline>'' MDA_ENDS]\<rparr>)"
    using assms(1,2) by (simp add: handler_ends ends_switch_def print_def)
  moreover have "traceroute_enriched_handler use \<lparr>type = MDA_NEW_LINK, data = dl\<rparr> s =
         Inr (s\<lparr>out := out s @
            [Printf_d ''traceroute_enriched_handler: Unhandled event %d\<newline>'' MDA_NEW_LINK]\<rparr>)"
    by (simp add: traceroute_enriched_handler_def unhandled_event_def print_def)
  ultimately show ?thesis by simp
qed

theorem handler_xml_notice_witness:
  "USE_FORMAT_XML example_use
   \<and> format (user_data (example_state TRACEROUTE_OUTPUT_FORMAT_XML)) = TRACEROUTE_OUTPUT_FORMAT_XML
   \<and> fst (malloc (heap (example_state TRACEROUTE_OUTPUT_FORMAT_XML))) \<noteq> NULL
   \<and> traceroute_enriched_handler example_use example_reply_event
        (example_state TRACEROUTE_OUTPUT_FORMAT_XML) =
       Inr ((example_state TRACEROUTE_OUTPUT_FORMAT_XML)
              \<lparr>out := [Fprintf stderr ''Not yet implemented\<newline>'']\<rparr>)
   \<and> traceroute_enriched_handler example_use example_timeout_event
        (example_state TRACEROUTE_OUTPUT_FORMAT_XML) =
       Inr ((example_state TRACEROUTE_OUTPUT_FORMAT_XML)
              \<lparr>out := [Fprintf stderr ''Not yet implemented\<newline>'']\<rparr>)
   \<and> traceroute_enriched_handler example_use \<lparr>type = MDA_ENDS, data = Other_data\<rparr>
        (example_state TRACEROUTE_OUTPUT_FORMAT_XML) =
       Inr ((example_state TRACEROUTE_OUTPUT_FORMAT_XML)
              \<lparr>out := [Fprintf stderr ''Not yet implemented\<newline>'',
                 Printf_d ''traceroute_enriched_handler: Unhandled event %d\<newline>'' MDA_ENDS]\<rparr>)"
proof -
  let ?s = "example_state TRACEROUTE_OUTPUT_FORMAT_XML"
  have a: "USE_FORMAT_XML example_use"
    by (simp add: example_use_def)
  have b: "format (user_data ?s) = TRACEROUTE_OUTPUT_FORMAT_XML"
    by (simp add: example_state_def)
  have c: "fst (malloc (heap ?s)) \<noteq> NULL"
    by (simp add: malloc_not_NULL example_state_def example_heap_def)
  have o: "out ?s = []"
    by (simp add: example_state_def)
  from handler_xml_notice [OF a b c, of "\<lparr>probe = example_probe, reply = example_reply\<rparr>"
      "Probe_data example_probe" Other_data Other_data]
  show ?thesis
    using a b c by (simp add: o example_reply_event_def example_timeout_event_def)
qed

text \<open>
  C9. When the allocation succeeds and \<open>rp\<close> points to a live enriched reply \<open>r\<close>,
  \<open>enriched_reply_shallow_copy\<close> returns a block \<open>p\<close> that is not null and was not live
  before the call, which holds the \<open>reply\<close> and the \<open>delay\<close> of \<open>r\<close>, and \<open>rp\<close> still
  holds \<open>r\<close>.
\<close>

theorem shallow_copy_copies:
  assumes "fst (malloc h) \<noteq> NULL" and "load h rp = Inr r"
  shows "\<exists>p h'. enriched_reply_shallow_copy h rp = Inr (p, h')
     \<and> p \<noteq> NULL \<and> map_of (cells h) p = None
     \<and> load h' p = Inr \<lparr>reply = reply r, delay = delay r\<rparr>
     \<and> load h' rp = Inr r"
proof -
  let ?p = "fresh (cells h)"
  from assms(1) have room: "room h \<noteq> 0"
    by (simp add: malloc_not_NULL)
  from assms(2) have live: "rp \<noteq> NULL" "map_of (cells h) rp = Some r"
    by (simp_all add: load_live)
  then have neq: "rp \<noteq> ?p"
    using map_of_fresh [of "cells h"] by auto
  let ?h' = "h\<lparr>cells := (?p, \<lparr>reply = reply r, delay = delay r\<rparr>) # cells h, room := room h - 1\<rparr>"
  have "enriched_reply_shallow_copy h rp = Inr (?p, ?h')"
    using room live neq
    by (simp add: enriched_reply_shallow_copy_def malloc_ok load_def store_def and_then_def
        fresh_not_NULL overwrite_junk)
  moreover have "load ?h' ?p = Inr \<lparr>reply = reply r, delay = delay r\<rparr>"
    by (simp add: load_def fresh_not_NULL)
  moreover have "load ?h' rp = Inr r"
    using live neq by (simp add: load_def)
  ultimately show ?thesis
    using fresh_not_NULL map_of_fresh by blast
qed

theorem shallow_copy_copies_witness:
  "fst (malloc example_heap) \<noteq> NULL
   \<and> load example_heap 1 = Inr \<lparr>reply = example_reply, delay = 5 / 2\<rparr>
   \<and> (\<exists>p h'. enriched_reply_shallow_copy example_heap 1 = Inr (p, h')
        \<and> p \<noteq> NULL \<and> map_of (cells example_heap) p = None
        \<and> load h' p = Inr \<lparr>reply = example_reply, delay = 5 / 2\<rparr>
        \<and> load h' 1 = Inr \<lparr>reply = example_reply, delay = 5 / 2\<rparr>)"
proof -
  have a: "fst (malloc example_heap) \<noteq> NULL"
    by (simp add: malloc_not_NULL example_heap_def)
  have b: "load example_heap 1 = Inr \<lparr>reply = example_reply, delay = 5 / 2\<rparr>"
    by (simp add: load_def example_heap_def NULL_def)
  from shallow_copy_copies [OF a b] show ?thesis
    using a b by simp
qed

text \<open>
  C10. In the default format the handler prints nothing for a timeout and nothing for a
  reply: it returns the state it was given, output included. (A reply whose allocation
  fails stops the program at the null pointer, before anything could be printed.)
\<close>

theorem handler_default_silent:
  assumes "format (user_data s) = TRACEROUTE_OUTPUT_FORMAT_DEFAULT"
  shows "traceroute_enriched_handler use \<lparr>type = MDA_PROBE_TIMEOUT, data = dt\<rparr> s = Inr s
     \<and> traceroute_enriched_handler use \<lparr>type = MDA_PROBE_REPLY, data = Probe_reply_data d\<rparr> s =
         (if fst (malloc (heap s)) = NULL then Inl Null_dereference else Inr s)"
proof -
  have "traceroute_enriched_handler use \<lparr>type = MDA_PROBE_TIMEOUT, data = dt\<rparr> s = Inr s"
    using assms by (simp add: traceroute_enriched_handler_def timeout_switch_def)
  moreover have "traceroute_enriched_handler use \<lparr>type = MDA_PROBE_REPLY, data = Probe_reply_data d\<rparr> s =
         (if fst (malloc (heap s)) = NULL then Inl Null_dereference else Inr s)"
    using assms handler_reply [of s use d] handler_reply_null [of s use d]
      malloc_not_NULL [of "heap s"] by auto
  ultimately show ?thesis by simp
qed

theorem handler_default_silent_witness:
  "format (user_data (example_state TRACEROUTE_OUTPUT_FORMAT_DEFAULT)) = TRACEROUTE_OUTPUT_FORMAT_DEFAULT
   \<and> traceroute_enriched_handler example_use example_timeout_event
        (example_state TRACEROUTE_OUTPUT_FORMAT_DEFAULT) = Inr (example_state TRACEROUTE_OUTPUT_FORMAT_DEFAULT)
   \<and> traceroute_enriched_handler example_use example_reply_event
        (example_state TRACEROUTE_OUTPUT_FORMAT_DEFAULT) = Inr (example_state TRACEROUTE_OUTPUT_FORMAT_DEFAULT)
   \<and> out (example_state TRACEROUTE_OUTPUT_FORMAT_DEFAULT) = []"
proof -
  let ?s = "example_state TRACEROUTE_OUTPUT_FORMAT_DEFAULT"
  have a: "format (user_data ?s) = TRACEROUTE_OUTPUT_FORMAT_DEFAULT"
    by (simp add: example_state_def)
  have c: "fst (malloc (heap ?s)) \<noteq> NULL"
    by (simp add: malloc_not_NULL example_state_def example_heap_def)
  have o: "out ?s = []"
    by (simp add: example_state_def)
  from handler_default_silent [OF a, of example_use "Probe_data example_probe"
      "\<lparr>probe = example_probe, reply = example_reply\<rparr>"]
  show ?thesis
    using a c o by (simp add: example_reply_event_def example_timeout_event_def)
qed

section \<open>Properties of map\_probe\_free\<close>

lemma map_probe_free_loop_eq:
  "map_probe_free_loop i max_ttl m freed = freed @ List.map_filter m [i..<max_ttl]"
proof (induction i max_ttl m freed rule: map_probe_free_loop.induct)
  case (1 i max_ttl m freed)
  show ?case
  proof (cases "i < max_ttl")
    case True
    then have "[i..<max_ttl] = i # [Suc i..<max_ttl]"
      by (simp add: upt_conv_Cons)
    with True "1" show ?thesis
      by (subst map_probe_free_loop.simps) (simp add: map_filter_simps split: option.splits)
  next
    case False
    then show ?thesis
      by (subst map_probe_free_loop.simps) (simp add: map_filter_simps)
  qed
qed

lemma set_map_probe_free:
  "set (map_probe_free max_ttl m) = {v. \<exists>i. 1 \<le> i \<and> i < max_ttl \<and> m i = Some v}"
  by (force simp: map_probe_free_def map_probe_free_loop_eq List.map_filter_def)

text \<open>
  C2. The claim: the vector of every hop present in the map is freed, the one at
  \<open>max_ttl\<close> included. The loop runs over the hops from 1 up to \<open>max_ttl - 1\<close>: the
  vector at \<open>max_ttl\<close> is never passed to \<open>free\<close>. With vectors at the hops 1, 2 and 3
  and \<open>max_ttl = 3\<close>, the vectors of the hops 1 and 2 are freed and the one of hop 3 is
  not.
\<close>

theorem map_probe_free_leaves_max_ttl:
  "map_probe_free max_ttl m = List.map_filter m [1..<max_ttl]
   \<and> map_probe_free 3 [1 \<mapsto> 101, 2 \<mapsto> 102, 3 \<mapsto> 103] = [101, 102]
   \<and> 103 \<notin> set (map_probe_free 3 [1 \<mapsto> 101, 2 \<mapsto> 102, 3 \<mapsto> 103])"
proof -
  have "map_probe_free 3 [1 \<mapsto> 101, 2 \<mapsto> 102, 3 \<mapsto> 103] = [101, 102]"
    by (simp add: map_probe_free_def map_probe_free_loop.simps)
  then show ?thesis
    by (simp add: map_probe_free_def map_probe_free_loop_eq)
qed

section \<open>Properties of main\<close>

lemmas main_defs =
  main_def fail_def choose_family_def prepare_probe_def choose_algorithm_def
  probe_create_def probe_set_field_def
  ERR_INIT_OPTIONS_def ERR_INVALID_ALGORITHM_def ERR_LOOP_CREATE_def ERR_PROBE_SKEL_def
  ERR_UNKNOWN_ALGORITHM_def AF_INET_def AF_INET6_def EXIT_SUCCESS_def EXIT_FAILURE_def

text \<open>
  The ports of a probe that is not an ICMP probe, for any command line: the source port
  is \<open>src_port[0]\<close>; the destination port is \<open>dst_port[0]\<close> when \<open>-d\<close> was given, and 53
  when it was not and \<open>is_udp\<close> holds after line 254, that is, when \<open>-U\<close> was given or
  the protocol chosen is \<open>udp\<close>, which is also the protocol when \<open>-P\<close> is not given.
\<close>

lemma prepare_probe_ports:
  assumes "\<not> is_icmp g" and "protocol_names g ! 0 \<noteq> ''icmp''"
  shows "\<exists>p. prepare_probe e g family ip_protocol_name probe0 = Inr p
     \<and> field_values p ''src_port'' = Some (I16 (word_of_int (src_port g ! 0)))
     \<and> field_values p ''dst_port'' =
         Some (I16 (if (is_udp g \<or> protocol_names g ! 0 = ''udp'') \<and> dst_port g ! 3 = 0
                    then 53 else word_of_int (dst_port g ! 0)))"
  using assms by (simp add: prepare_probe_def probe_set_field_def Let_def)

text \<open>
  C3. The claim: a command line with both \<open>-I\<close> and \<open>-U\<close> is refused with an option error
  and a non-zero exit code, and no probe is sent. The code has no such test (line 256
  is a note to add it): with both flags set and the library succeeding, \<open>main\<close> prints no
  error, makes an ICMP probe whose \<open>dst\_port\<close> is 53, creates the loop, adds the
  algorithm, runs the loop and leaves with the exit code 0.
\<close>

theorem icmp_and_udp_accepted:
  "main example_env (initial_statics\<lparr>is_udp := True, is_icmp := True\<rparr>) =
     \<lparr>exit_code = 0,
      effects = [Printf ''Traceroute to %s (%s), %u hops max, %ld bytes packets\<newline>\<newline>'',
                 Probe_free, Pt_loop_free, Free_dst_ip_num],
      probe_used = Some \<lparr>protocols = [Some ''ipv4'', Some ''icmpv4''],
                     field_values = [''dst_ip'' \<mapsto> ADDRESS ''192.0.2.1'', ''dst_port'' \<mapsto> I16 53],
                     payload_size = 0\<rparr>,
      loop_created = True, algorithm_added = Some ''traceroute'', loop_run = True\<rparr>"
  by (simp add: main_defs example_env_def initial_statics_def Let_def)

text \<open>
  C4. The claim: the destination port is 53 with \<open>-U\<close> and without \<open>-d\<close>, the value of
  \<open>-d\<close> when it is given, and 33457 when neither \<open>-U\<close> nor \<open>-d\<close> is given. The first
  two parts hold for a probe that is not an ICMP probe (\<open>prepare_probe_ports\<close>). The
  last one does not: line 254 sets \<open>is_udp\<close> whenever the protocol chosen is \<open>udp\<close>,
  which it is by default, so that with no flag at all the destination port written
  last is 53, not the 33457 that the help text of \<open>-d\<close> announces.
\<close>

theorem default_dst_port_is_53:
  "\<exists>p. probe_used (main example_env initial_statics) = Some p
     \<and> field_values p ''dst_port'' = Some (I16 53)
     \<and> field_values p ''dst_port'' \<noteq> Some (I16 33457)
     \<and> field_values p ''src_port'' = Some (I16 33456)
     \<and> loop_run (main example_env initial_statics)
     \<and> algorithm_added (main example_env initial_statics) = Some ''traceroute''
     \<and> exit_code (main example_env initial_statics) = 0"
  by (simp add: main_defs example_env_def initial_statics_def Let_def UINT16_MAX_def)

text \<open>
  C5. When an option of the mda family was passed and the algorithm chosen is not
  \<open>mda\<close>, \<open>main\<close> leaves with \<open>EXIT_FAILURE\<close>, which is not 0, after an error message, and
  has neither created the loop nor added an algorithm nor run the loop, so no probe was
  sent. The message is the one of line 203 (followed by the text of \<open>errno\<close> when it is
  set) unless \<open>main\<close> has already stopped on the options themselves, at line 184 or 190.
\<close>

theorem mda_options_need_mda:
  assumes "options_mda_get_is_set e" and "algorithm_names g ! 0 \<noteq> ''mda''"
  shows "exit_code (main e g) = EXIT_FAILURE \<and> exit_code (main e g) \<noteq> 0
     \<and> \<not> loop_created (main e g) \<and> \<not> loop_run (main e g)
     \<and> algorithm_added (main e g) = None \<and> probe_used (main e g) = None
     \<and> effects (main e g) =
         (if \<not> options_create_ok e then [Fprintf_stderr ''E: Can't initialize options\<newline>'']
          else if options_parse_result e \<noteq> 1 then [Fprintf_stderr ''%s: destination required\<newline>'']
          else Perror ''E: You cannot pass options related to mda when using another algorithm''
               # (if errno e \<noteq> 0 then [Perror_gai_strerror (errno e)] else []))"
  using assms
  by (simp add: main_def fail_def ERR_INIT_OPTIONS_def ERR_INVALID_ALGORITHM_def EXIT_FAILURE_def Let_def)

theorem mda_options_need_mda_witness:
  "options_mda_get_is_set (example_env\<lparr>options_mda_get_is_set := True\<rparr>)
   \<and> algorithm_names initial_statics ! 0 \<noteq> ''mda''
   \<and> exit_code (main (example_env\<lparr>options_mda_get_is_set := True\<rparr>) initial_statics) = 1
   \<and> \<not> loop_created (main (example_env\<lparr>options_mda_get_is_set := True\<rparr>) initial_statics)
   \<and> \<not> loop_run (main (example_env\<lparr>options_mda_get_is_set := True\<rparr>) initial_statics)
   \<and> effects (main (example_env\<lparr>options_mda_get_is_set := True\<rparr>) initial_statics) =
       [Perror ''E: You cannot pass options related to mda when using another algorithm'']"
proof -
  let ?e = "example_env\<lparr>options_mda_get_is_set := True\<rparr>"
  have a: "options_mda_get_is_set ?e"
    by simp
  have b: "algorithm_names initial_statics ! 0 \<noteq> ''mda''"
    by (simp add: initial_statics_def)
  have c: "options_create_ok ?e" "options_parse_result ?e = 1" "errno ?e = 0"
    by (simp_all add: example_env_def)
  from mda_options_need_mda [OF a b] show ?thesis
    using a b c by (simp add: EXIT_FAILURE_def)
qed

end
